theory Spec2Isabelle
  imports Main "HOL-Library.AList" "HOL-Library.Char_ord" "HOL-Library.List_Lexorder"
begin

section \<open>Strings\<close>

text \<open>
  A Python string is modelled by its UTF-8 bytes, a \<^typ>\<open>string\<close>. Its characters are the
  groups of one leading byte and the continuation bytes (\<open>0x80..0xBF\<close>) after it. Equality,
  the order, \<open>in\<close>, \<open>split\<close> and \<open>startswith\<close> on strings are the same on the bytes.
\<close>

definition is_continuation :: "char \<Rightarrow> bool" where
  "is_continuation c = (let n = (of_char c :: nat) in 128 \<le> n \<and> n < 192)"

definition chars :: "string \<Rightarrow> string list" where
  "chars s =
     (case foldr (\<lambda>c (cur, acc). if is_continuation c then (c # cur, acc) else ([], (c # cur) # acc))
             s ([], []) of
        (cur, acc) \<Rightarrow> if cur = [] then acc else cur # acc)"

text \<open>
  The characters that \<open>str.strip()\<close> removes, which are those of \<open>str.isspace()\<close>:
  U+0009..U+000D, U+001C..U+001F, U+0020, U+0085, U+00A0, U+1680, U+2000..U+200A, U+2028,
  U+2029, U+202F, U+205F and U+3000, each as its UTF-8 bytes.
\<close>

definition whitespace :: "string list" where
  "whitespace =
     [[CHR 0x09], [CHR 0x0A], [CHR 0x0B], [CHR 0x0C], [CHR 0x0D],
      [CHR 0x1C], [CHR 0x1D], [CHR 0x1E], [CHR 0x1F], [CHR 0x20],
      [CHR 0xC2, CHR 0x85], [CHR 0xC2, CHR 0xA0], [CHR 0xE1, CHR 0x9A, CHR 0x80],
      [CHR 0xE2, CHR 0x80, CHR 0x80], [CHR 0xE2, CHR 0x80, CHR 0x81], [CHR 0xE2, CHR 0x80, CHR 0x82],
      [CHR 0xE2, CHR 0x80, CHR 0x83], [CHR 0xE2, CHR 0x80, CHR 0x84], [CHR 0xE2, CHR 0x80, CHR 0x85],
      [CHR 0xE2, CHR 0x80, CHR 0x86], [CHR 0xE2, CHR 0x80, CHR 0x87], [CHR 0xE2, CHR 0x80, CHR 0x88],
      [CHR 0xE2, CHR 0x80, CHR 0x89], [CHR 0xE2, CHR 0x80, CHR 0x8A],
      [CHR 0xE2, CHR 0x80, CHR 0xA8], [CHR 0xE2, CHR 0x80, CHR 0xA9], [CHR 0xE2, CHR 0x80, CHR 0xAF],
      [CHR 0xE2, CHR 0x81, CHR 0x9F], [CHR 0xE3, CHR 0x80, CHR 0x80]]"

definition is_space :: "string \<Rightarrow> bool" where
  "is_space ch = (ch \<in> set whitespace)"

definition strip :: "string \<Rightarrow> string" where
  "strip s = concat (rev (dropWhile is_space (rev (dropWhile is_space (chars s)))))"

definition is_ascii :: "string \<Rightarrow> bool" where
  "is_ascii s = list_all (\<lambda>c. (of_char c :: nat) < 128) s"

definition lower_char :: "char \<Rightarrow> char" where
  "lower_char c = (let n = (of_char c :: nat) in if 65 \<le> n \<and> n \<le> 90 then char_of (n + 32) else c)"

text \<open>
  \<open>str.lower()\<close>. On a string of ASCII characters it maps \<open>A..Z\<close> to \<open>a..z\<close>. On a string
  with a character outside ASCII it follows the case mappings of the Unicode character
  database, which is no part of the repository: that function is the parameter
  \<open>unicode_lower\<close> of \<open>lower\<close> and of every function that lower-cases a string.
\<close>

definition lower :: "(string \<Rightarrow> string) \<Rightarrow> string \<Rightarrow> string" where
  "lower unicode_lower s = (if is_ascii s then map lower_char s else unicode_lower s)"

datatype py_error = TypeError | OSError | CsvError

section \<open>Rows of the store\<close>

text \<open>
  A row as \<open>csv.DictReader\<close> yields it is a Python dict, which keeps insertion order: an
  association list. A cell is \<open>Some s\<close> for a string and \<open>None\<close> for Python's \<open>None\<close> (the
  \<open>restval\<close> of a row shorter than the header). The surplus cells of a row longer than the
  header are stored by \<open>DictReader\<close> under the key \<open>None\<close>: the field \<open>rest\<close>.
\<close>

record pyrow =
  cells :: "(string \<times> string option) list"
  rest :: "string list option"

text \<open>\<open>r.get(k)\<close>: \<open>None\<close> for a missing key and for a stored \<open>None\<close>.\<close>

definition dict_get :: "pyrow \<Rightarrow> string \<Rightarrow> string option" where
  "dict_get r k = (case map_of (cells r) k of None \<Rightarrow> None | Some v \<Rightarrow> v)"

text \<open>\<open>r.get(k, d)\<close>: the default only for a missing key.\<close>

definition dict_get_default :: "pyrow \<Rightarrow> string \<Rightarrow> string \<Rightarrow> string option" where
  "dict_get_default r k d = (case map_of (cells r) k of None \<Rightarrow> Some d | Some v \<Rightarrow> v)"

text \<open>\<open>r[k] = v\<close>: an existing key keeps its place, a new one goes last.\<close>

definition dict_set :: "pyrow \<Rightarrow> string \<Rightarrow> string option \<Rightarrow> pyrow" where
  "dict_set r k v = r\<lparr>cells := AList.update k v (cells r)\<rparr>"

text \<open>\<open>x or d\<close> for an optional string: \<open>None\<close> and the empty string are falsy.\<close>

definition py_or :: "string option \<Rightarrow> string \<Rightarrow> string" where
  "py_or v d = (case v of None \<Rightarrow> d | Some s \<Rightarrow> if s = [] then d else s)"

text \<open>The truth value of a dict: it has an entry.\<close>

definition truthy :: "pyrow \<Rightarrow> bool" where
  "truthy r = (cells r \<noteq> [] \<or> rest r \<noteq> None)"

definition csv_columns :: "string list" where
  "csv_columns =
     [''id'', ''created_utc'', ''kind'', ''title'', ''price_tenge'', ''phone'',
      ''description'', ''photos'', ''password'']"

section \<open>The store file\<close>

text \<open>
  \<open>SUBMISSIONS_CSV\<close> is modelled by its rows: the rows \<open>csv.writer\<close> was given, which are
  the rows \<open>csv.reader\<close> yields from it as long as no field is longer than the reader's
  limit, \<open>csv.field_size_limit()\<close>, of 131072 characters; on a longer field the reader raises
  \<open>_csv.Error\<close>. The byte encoding is the \<open>csv\<close> module's: the model takes a field within
  the limit to be read as it was written. \<open>None\<close> is the file that does not exist.
\<close>

type_synonym csv_file = "string list list"

definition field_too_long :: "string \<Rightarrow> bool" where
  "field_too_long s = (int (length (chars s)) > 131072)"

definition csv_readable :: "csv_file \<Rightarrow> bool" where
  "csv_readable content = list_all (list_all (\<lambda>cell. \<not> field_too_long cell)) content"

text \<open>
  \<open>_ensure_csv_header\<close>, on the rows that its \<open>csv.reader\<close> has yielded: the rows it writes
  to the file, or \<open>None\<close> when it returns without opening the file for writing.
\<close>

definition ensure_csv_header_writes :: "csv_file option \<Rightarrow> csv_file option" where
  "ensure_csv_header_writes f =
     (case f of
        None \<Rightarrow> Some [csv_columns]
      | Some [] \<Rightarrow> Some [csv_columns]
      | Some (header # rows) \<Rightarrow>
          if header = csv_columns then None
          else if ''password'' \<notin> set header
            then Some ((header @ [''password'']) # map (\<lambda>r. r @ ['''']) rows)
          else None)"

definition ensure_csv_header :: "csv_file option \<Rightarrow> csv_file option" where
  "ensure_csv_header f =
     (case ensure_csv_header_writes f of None \<Rightarrow> f | Some rows \<Rightarrow> Some rows)"

text \<open>
  One row of \<open>csv.DictReader\<close>: \<open>dict(zip(fieldnames, row))\<close>, then the surplus cells under
  the key \<open>None\<close>, or \<open>None\<close> for the fields the row has no cell for.
\<close>

definition dict_of_row :: "string list \<Rightarrow> string list \<Rightarrow> pyrow" where
  "dict_of_row fieldnames row =
     (let d = fold (\<lambda>(k, v). AList.update k (Some v)) (zip fieldnames row) [];
          lf = length fieldnames;
          lr = length row
      in if lf < lr then \<lparr>cells = d, rest = Some (drop lf row)\<rparr>
         else if lf > lr
           then \<lparr>cells = fold (\<lambda>k. AList.update k None) (drop lr fieldnames) d, rest = None\<rparr>
         else \<lparr>cells = d, rest = None\<rparr>)"

text \<open>\<open>csv.DictReader\<close>: the first row is the header, and empty rows are skipped.\<close>

fun dict_reader :: "csv_file \<Rightarrow> pyrow list" where
  "dict_reader [] = []"
| "dict_reader (fieldnames # rows) = map (dict_of_row fieldnames) (filter (\<lambda>r. r \<noteq> []) rows)"

definition row_id :: "pyrow \<Rightarrow> string" where
  "row_id r = strip (py_or (dict_get r ''id'') '''')"

text \<open>\<open>_read_all_rows\<close>: the rows with an id, or the error of the reader.\<close>

definition read_all_rows :: "csv_file option \<Rightarrow> py_error + pyrow list" where
  "read_all_rows f =
     (case f of
        None \<Rightarrow> Inr []
      | Some content \<Rightarrow>
          if csv_readable content then Inr (filter (\<lambda>r. row_id r \<noteq> '''') (dict_reader content))
          else Inl CsvError)"

text \<open>\<open>_write_all_rows\<close>: the rows written to the temporary file that replaces the store.\<close>

definition write_all_rows :: "pyrow list \<Rightarrow> csv_file" where
  "write_all_rows rows =
     csv_columns # map (\<lambda>r. map (\<lambda>c. py_or (dict_get_default r c '''') '''') csv_columns) rows"

definition find_row :: "pyrow list \<Rightarrow> string \<Rightarrow> pyrow option" where
  "find_row rows sid = find (\<lambda>r. row_id r = sid) rows"

section \<open>Paths and the uploads directory\<close>

text \<open>
  An absolute path is the list of its components below the root. The file system holds
  regular files (with their contents) and directories under their resolved paths, and has
  no symbolic links, so that \<open>Path.resolve()\<close> is the removal of the \<open>..\<close> components.
  Every operation on a path resolves it first, as the operating system does.
\<close>

type_synonym path = "string list"

datatype node = File string | Dir

type_synonym filesystem = "(path \<times> node) list"

text \<open>\<open>s.split(sep)\<close> for a separator of one character.\<close>

fun split_char :: "char \<Rightarrow> string \<Rightarrow> string list" where
  "split_char sep [] = [[]]"
| "split_char sep (c # cs) =
     (if c = sep then [] # split_char sep cs
      else (case split_char sep cs of [] \<Rightarrow> [[c]] | p # ps \<Rightarrow> (c # p) # ps))"

text \<open>\<open>sep.join(xs)\<close>.\<close>

fun join :: "string \<Rightarrow> string list \<Rightarrow> string" where
  "join sep [] = []"
| "join sep [x] = x"
| "join sep (x # y # ys) = x @ sep @ join sep (y # ys)"

definition startswith :: "string \<Rightarrow> string \<Rightarrow> bool" where
  "startswith s p = (take (length p) s = p)"

text \<open>
  \<open>p / s\<close> of \<open>pathlib\<close>: the segment is split at the slashes, empty and \<open>.\<close> components are
  dropped (\<open>..\<close> is kept), and an absolute segment replaces the path.
\<close>

definition path_join :: "path \<Rightarrow> string \<Rightarrow> path" where
  "path_join p s =
     (let parts = filter (\<lambda>c. c \<noteq> '''' \<and> c \<noteq> ''.'') (split_char CHR ''/'' s)
      in if startswith s ''/'' then parts else p @ parts)"

definition resolve :: "path \<Rightarrow> path" where
  "resolve p = fold (\<lambda>c acc. if c = ''..'' then butlast acc else acc @ [c]) p []"

text \<open>\<open>str(p)\<close> of an absolute path.\<close>

definition str_path :: "path \<Rightarrow> string" where
  "str_path p = (if p = [] then ''/'' else concat (map (\<lambda>c. CHR ''/'' # c) p))"

definition exists :: "filesystem \<Rightarrow> path \<Rightarrow> bool" where
  "exists fs p = (case map_of fs (resolve p) of None \<Rightarrow> False | Some _ \<Rightarrow> True)"

definition is_file :: "filesystem \<Rightarrow> path \<Rightarrow> bool" where
  "is_file fs p = (case map_of fs (resolve p) of Some (File _) \<Rightarrow> True | _ \<Rightarrow> False)"

definition is_dir :: "filesystem \<Rightarrow> path \<Rightarrow> bool" where
  "is_dir fs p = (case map_of fs (resolve p) of Some Dir \<Rightarrow> True | _ \<Rightarrow> False)"

definition unlink :: "filesystem \<Rightarrow> path \<Rightarrow> filesystem" where
  "unlink fs p = AList.delete (resolve p) fs"

text \<open>The names of the entries of a directory (\<open>d.iterdir()\<close>) that are regular files.\<close>

definition file_names :: "filesystem \<Rightarrow> path \<Rightarrow> string list" where
  "file_names fs d =
     map (\<lambda>(p, n). last p) (filter (\<lambda>(p, n). p \<noteq> [] \<and> butlast p = resolve d \<and> is_file fs p) fs)"

record config =
  ADMIN_KEY_env :: string
  SUBMISSIONS_CSV :: path
  UPLOADS_DIR :: path
  MAX_FILES :: int
  MAX_TOTAL_MB :: int
  MAX_FILE_MB :: int

text \<open>\<open>ADMIN_KEY = os.environ.get("ADMIN_KEY", "").strip()\<close>.\<close>

definition ADMIN_KEY :: "config \<Rightarrow> string" where
  "ADMIN_KEY cfg = strip (ADMIN_KEY_env cfg)"

definition MAX_CONTENT_LENGTH :: "config \<Rightarrow> int" where
  "MAX_CONTENT_LENGTH cfg = MAX_TOTAL_MB cfg * 1024 * 1024"

definition list_photos :: "config \<Rightarrow> filesystem \<Rightarrow> string \<Rightarrow> string list" where
  "list_photos cfg fs sid =
     (let d = path_join (UPLOADS_DIR cfg) sid
      in if \<not> exists fs d \<or> \<not> is_dir fs d then [] else sort (file_names fs d))"

section \<open>Session and admin proof\<close>

text \<open>
  The session is the signed cookie: the keys \<open>admin_key\<close> and \<open>unlocked_cards\<close> (\<open>None\<close> when
  the key is absent) and the flashed messages.
\<close>

record session =
  admin_key :: "string option"
  unlocked_cards :: "string list option"
  flashes :: "string list"

text \<open>
  \<open>hmac.compare_digest\<close> on two \<open>str\<close>: equality, and a \<open>TypeError\<close> when one of them has a
  character outside ASCII.
\<close>

definition compare_digest :: "string \<Rightarrow> string \<Rightarrow> py_error + bool" where
  "compare_digest a b = (if is_ascii a \<and> is_ascii b then Inr (a = b) else Inl TypeError)"

definition is_admin :: "config \<Rightarrow> session \<Rightarrow> py_error + bool" where
  "is_admin cfg sess =
     (if ADMIN_KEY cfg = '''' then Inr False
      else let k = (case admin_key sess of None \<Rightarrow> '''' | Some k \<Rightarrow> k)
           in if k = '''' then Inr False else compare_digest k (ADMIN_KEY cfg))"

text \<open>\<open>session.get("unlocked_cards", []) or []\<close>.\<close>

definition unlocked_list :: "session \<Rightarrow> string list" where
  "unlocked_list sess = (case unlocked_cards sess of None \<Rightarrow> [] | Some xs \<Rightarrow> xs)"

definition flash :: "string \<Rightarrow> session \<Rightarrow> session" where
  "flash msg sess = sess\<lparr>flashes := flashes sess @ [msg]\<rparr>"

section \<open>Public routes\<close>

datatype response =
    Abort nat
  | Redirect string
  | SendFile string
  | ThanksPage string "string list" string

text \<open>
  \<open>send_from_directory\<close> of the framework: the name is normalised, \<open>404\<close> when it is
  absolute or leaves the directory, \<open>404\<close> when the path is not a regular file, and the
  file otherwise.
\<close>

definition normpath_parts :: "string \<Rightarrow> string list" where
  "normpath_parts s =
     fold (\<lambda>c acc. if c = ''..'' \<and> acc \<noteq> [] \<and> last acc \<noteq> ''..'' then butlast acc else acc @ [c])
       (filter (\<lambda>c. c \<noteq> '''' \<and> c \<noteq> ''.'') (split_char CHR ''/'' s)) []"

definition send_from_directory :: "filesystem \<Rightarrow> path \<Rightarrow> string \<Rightarrow> response" where
  "send_from_directory fs directory filename =
     (let parts = normpath_parts filename
      in if startswith filename ''/'' \<or> (parts \<noteq> [] \<and> hd parts = ''..'') then Abort 404
         else (case map_of fs (resolve (directory @ parts)) of
                 Some (File content) \<Rightarrow> SendFile content
               | _ \<Rightarrow> Abort 404))"

text \<open>\<open>GET /thanks/<sid>\<close>.\<close>

definition thanks ::
    "(string \<Rightarrow> string) \<Rightarrow> config \<Rightarrow> csv_file option \<Rightarrow> filesystem \<Rightarrow> string \<Rightarrow> py_error + response" where
  "thanks unicode_lower cfg f fs sid =
     (case read_all_rows f of
        Inl e \<Rightarrow> Inl e
      | Inr rows \<Rightarrow>
          let r = find_row rows sid;
              kind0 = lower unicode_lower (strip
                (case r of
                   None \<Rightarrow> ''sell''
                 | Some row \<Rightarrow> if truthy row then py_or (dict_get row ''kind'') ''sell'' else ''sell''));
              kind = (if kind0 \<notin> {''buy'', ''sell''} then ''sell'' else kind0);
              sub_dir = path_join (UPLOADS_DIR cfg) sid;
              photos = (if exists fs sub_dir \<and> is_dir fs sub_dir then sort (file_names fs sub_dir)
                        else [])
          in Inr (ThanksPage sid photos kind))"

text \<open>
  \<open>POST /unlock/<sid>\<close>, with the form's \<open>password\<close> (\<open>None\<close> when the form has none).
  The flashed messages of the source are Russian sentences; the model flashes a tag.
\<close>

definition unlock ::
    "csv_file option \<Rightarrow> session \<Rightarrow> string \<Rightarrow> string option \<Rightarrow> py_error + (response \<times> session)" where
  "unlock f sess sid form_password =
     (let password = strip (py_or form_password '''')
      in case read_all_rows f of
           Inl e \<Rightarrow> Inl e
         | Inr rows \<Rightarrow>
            (case find_row rows sid of
               None \<Rightarrow> Inr (Abort 404, sess)
             | Some r \<Rightarrow>
                 if \<not> truthy r then Inr (Abort 404, sess)
                 else let expected = strip (py_or (dict_get r ''password'') '''')
                   in if expected = '''' then Inr (Redirect ''/'', sess)
                      else case (if password = '''' then Inr False
                                 else compare_digest password expected) of
                             Inl e \<Rightarrow> Inl e
                           | Inr True \<Rightarrow>
                               (let unlocked = unlocked_list sess;
                                    unlocked' = (if sid \<notin> set unlocked then unlocked @ [sid]
                                                 else unlocked)
                                in Inr (Redirect ''/'', sess\<lparr>unlocked_cards := Some unlocked'\<rparr>))
                           | Inr False \<Rightarrow>
                               Inr (Redirect ''/'', flash ''wrong password'' sess)))"

text \<open>\<open>GET /uploads/<sid>/<path:filename>\<close>.\<close>

definition uploads ::
    "config \<Rightarrow> csv_file option \<Rightarrow> session \<Rightarrow> filesystem \<Rightarrow> string \<Rightarrow> string \<Rightarrow> py_error + response" where
  "uploads cfg f sess fs sid filename =
     (case is_admin cfg sess of
        Inl e \<Rightarrow> Inl e
      | Inr admin \<Rightarrow>
          let serve = send_from_directory fs (path_join (UPLOADS_DIR cfg) sid) filename
          in if \<not> admin then
               (case read_all_rows f of
                  Inl e \<Rightarrow> Inl e
                | Inr rows \<Rightarrow>
                   (case find_row rows sid of
                      None \<Rightarrow> Inr serve
                    | Some r \<Rightarrow>
                        if truthy r then
                          (let expected = strip (py_or (dict_get r ''password'') '''')
                           in if expected \<noteq> '''' then
                                (if sid \<notin> set (unlocked_list sess) then Inr (Abort 403)
                                 else Inr serve)
                              else Inr serve)
                        else Inr serve))
             else Inr serve)"

section \<open>Feeds\<close>

text \<open>\<open>urllib.parse.quote\<close> with its default \<open>safe = "/"\<close>, on the UTF-8 bytes.\<close>

definition quote_safe :: "char \<Rightarrow> bool" where
  "quote_safe c =
     (let n = (of_char c :: nat)
      in (65 \<le> n \<and> n \<le> 90) \<or> (97 \<le> n \<and> n \<le> 122) \<or> (48 \<le> n \<and> n \<le> 57) \<or> c \<in> set ''_.-~/'')"

definition hex_digit :: "nat \<Rightarrow> char" where
  "hex_digit n = ''0123456789ABCDEF'' ! n"

definition quote :: "string \<Rightarrow> string" where
  "quote s =
     concat (map (\<lambda>c. if quote_safe c then [c]
                       else [CHR ''%'', hex_digit ((of_char c :: nat) div 16),
                             hex_digit ((of_char c :: nat) mod 16)]) s)"

text \<open>\<open>name.rsplit(".", 1)[-1].lower() if "." in name else ""\<close>.\<close>

definition extension :: "(string \<Rightarrow> string) \<Rightarrow> string \<Rightarrow> string" where
  "extension unicode_lower name =
     (if CHR ''.'' \<in> set name
      then lower unicode_lower (rev (takeWhile (\<lambda>c. c \<noteq> CHR ''.'') (rev name)))
      else '''')"

text \<open>\<open>_thumb_url\<close>: the code after its first two returns is never reached.\<close>

definition thumb_url :: "(string \<Rightarrow> string) \<Rightarrow> string \<Rightarrow> string \<Rightarrow> string list \<Rightarrow> string" where
  "thumb_url unicode_lower sid kind photos =
     (case photos of
        [] \<Rightarrow> ''/static/logo.jpeg''
      | first # _ \<Rightarrow>
          if extension unicode_lower first \<in> {''jpg'', ''jpeg'', ''png'', ''webp'', ''gif''}
          then ''/uploads/'' @ sid @ ''/'' @ quote first
          else ''/static/logo.jpeg'')"

record item =
  item_id :: string
  item_created_utc :: string
  item_kind :: string
  item_title :: string
  item_price_tenge :: string
  item_phone :: string
  item_description :: string
  item_photos :: "string list"
  item_thumb_url :: string
  item_password :: string

text \<open>\<open>xs[:limit]\<close>: a negative limit counts from the end.\<close>

definition py_take :: "int \<Rightarrow> 'a list \<Rightarrow> 'a list" where
  "py_take limit xs =
     (if 0 \<le> limit then take (nat limit) xs else take (length xs - nat (- limit)) xs)"

text \<open>
  \<open>items.sort(key = created_utc, reverse = True)\<close>: the list is reversed, sorted by a
  stable sort, and reversed again.
\<close>

definition newest_first :: "item list \<Rightarrow> item list" where
  "newest_first items = rev (sort_key item_created_utc (rev items))"

text \<open>The body of the loop of \<open>_load_submissions\<close>, for a row that has an id.\<close>

definition load_submissions_item :: "(string \<Rightarrow> string) \<Rightarrow> pyrow \<Rightarrow> item" where
  "load_submissions_item unicode_lower row =
     (let sid = strip (py_or (dict_get row ''id'') '''');
          kind = lower unicode_lower (strip (py_or (dict_get row ''kind'') ''material''));
          photos_raw = strip (py_or (dict_get row ''photos'') '''');
          photos = (if photos_raw \<noteq> '''' then filter (\<lambda>p. p \<noteq> '''') (split_char CHR '';'' photos_raw)
                    else [])
      in \<lparr>item_id = sid,
          item_created_utc = strip (py_or (dict_get row ''created_utc'') ''''),
          item_kind = kind,
          item_title = strip (py_or (dict_get row ''title'') ''''),
          item_price_tenge = strip (py_or (dict_get row ''price_tenge'') ''''),
          item_phone = strip (py_or (dict_get row ''phone'') ''''),
          item_description = strip (py_or (dict_get row ''description'') ''''),
          item_photos = photos,
          item_thumb_url = thumb_url unicode_lower sid kind photos,
          item_password = strip (py_or (dict_get row ''password'') '''')\<rparr>)"

text \<open>\<open>_load_submissions\<close>: the feed, or the error of the reader.\<close>

definition load_submissions :: "(string \<Rightarrow> string) \<Rightarrow> csv_file option \<Rightarrow> int \<Rightarrow> py_error + item list" where
  "load_submissions unicode_lower f limit =
     (case f of
        None \<Rightarrow> Inr []
      | Some content \<Rightarrow>
          if csv_readable content
          then Inr (py_take limit
                 (newest_first
                    (map (load_submissions_item unicode_lower)
                       (filter (\<lambda>row. strip (py_or (dict_get row ''id'') '''') \<noteq> '''')
                          (dict_reader content)))))
          else Inl CsvError)"

text \<open>The body of the loop of \<open>_admin_submissions\<close>.\<close>

definition admin_submissions_item :: "(string \<Rightarrow> string) \<Rightarrow> config \<Rightarrow> filesystem \<Rightarrow> pyrow \<Rightarrow> item" where
  "admin_submissions_item unicode_lower cfg fs r =
     (let sid = strip (py_or (dict_get r ''id'') '''');
          kind0 = lower unicode_lower (strip (py_or (dict_get r ''kind'') ''sell''));
          kind = (if kind0 \<notin> {''buy'', ''sell''} then ''sell'' else kind0);
          photos_raw = strip (py_or (dict_get r ''photos'') '''');
          photos = (if photos_raw \<noteq> '''' then filter (\<lambda>p. p \<noteq> '''') (split_char CHR '';'' photos_raw)
                    else list_photos cfg fs sid)
      in \<lparr>item_id = sid,
          item_created_utc = strip (py_or (dict_get r ''created_utc'') ''''),
          item_kind = kind,
          item_title = strip (py_or (dict_get r ''title'') ''''),
          item_price_tenge = strip (py_or (dict_get r ''price_tenge'') ''''),
          item_phone = strip (py_or (dict_get r ''phone'') ''''),
          item_description = strip (py_or (dict_get r ''description'') ''''),
          item_photos = photos,
          item_thumb_url = thumb_url unicode_lower sid kind photos,
          item_password = strip (py_or (dict_get r ''password'') '''')\<rparr>)"

definition admin_submissions ::
    "(string \<Rightarrow> string) \<Rightarrow> config \<Rightarrow> csv_file option \<Rightarrow> filesystem \<Rightarrow> int \<Rightarrow> py_error + item list" where
  "admin_submissions unicode_lower cfg f fs limit =
     (case read_all_rows f of
        Inl e \<Rightarrow> Inl e
      | Inr rows \<Rightarrow>
          Inr (py_take limit (newest_first (map (admin_submissions_item unicode_lower cfg fs) rows))))"

section \<open>Admin routes\<close>

text \<open>
  The state that the admin routes change: the store file, which is the file at
  \<open>SUBMISSIONS_CSV\<close>, and the other files. The model takes the store file not to lie in a
  directory \<open>UPLOADS_DIR / sid\<close>, as with the default directories, where \<open>DATA_DIR\<close> is beside
  \<open>UPLOADS_DIR\<close>: \<open>admin_upload\<close>, which writes there under names without a slash, does not
  reach it then. \<open>admin_photo_delete\<close>, whose file name may have slashes, does.
\<close>

record world =
  csv_store :: "csv_file option"
  disk :: filesystem

record upload =
  upload_filename :: string
  upload_data :: string

record upload_request =
  content_length :: int
  photos_field :: "upload list"

text \<open>
  \<open>d.mkdir(parents=True, exist_ok=True)\<close>: every missing directory on the way is created;
  an \<open>OSError\<close> when one of them is a regular file.
\<close>

definition mkdir_parents :: "filesystem \<Rightarrow> path \<Rightarrow> py_error + filesystem" where
  "mkdir_parents fs d =
     fold (\<lambda>p acc. case acc of
                      Inl e \<Rightarrow> Inl e
                    | Inr fs' \<Rightarrow> if is_file fs' p then Inl OSError
                                 else if exists fs' p then Inr fs'
                                 else Inr (fs' @ [(p, Dir)]))
       (map (\<lambda>n. take n (resolve d)) [1..<length (resolve d) + 1]) (Inr fs)"

text \<open>\<open>target.stem\<close> and \<open>target.suffix\<close> of \<open>pathlib\<close>, on the name.\<close>

definition suffix_at :: "string \<Rightarrow> nat option" where
  "suffix_at name =
     (if CHR ''.'' \<in> set name
      then (let i = length name - 1 - length (takeWhile (\<lambda>c. c \<noteq> CHR ''.'') (rev name))
            in if 0 < i \<and> i < length name - 1 then Some i else None)
      else None)"

definition stem :: "string \<Rightarrow> string" where
  "stem name = (case suffix_at name of None \<Rightarrow> name | Some i \<Rightarrow> take i name)"

definition suffix :: "string \<Rightarrow> string" where
  "suffix name = (case suffix_at name of None \<Rightarrow> '''' | Some i \<Rightarrow> drop i name)"

text \<open>
  The loop of \<open>admin_upload\<close> over the files. \<open>secure\<close> is \<open>werkzeug\<close>'s \<open>secure_filename\<close>,
  and \<open>rand n\<close> is \<open>uuid.uuid4().hex[:6]\<close> for the file at position \<open>n\<close>. The result is the
  file system and \<open>saved\<close>.
\<close>

fun save_files ::
    "(string \<Rightarrow> string) \<Rightarrow> (nat \<Rightarrow> string) \<Rightarrow> path \<Rightarrow> upload list \<Rightarrow> nat \<Rightarrow> filesystem
      \<Rightarrow> py_error + (filesystem \<times> nat)" where
  "save_files secure rand sub_dir [] saved fs = Inr (fs, saved)"
| "save_files secure rand sub_dir (f # files) saved fs =
     (let name = (if secure (upload_filename f) = '''' then ''photo.jpg'' else secure (upload_filename f));
          target0 = path_join sub_dir name;
          target = (if exists fs target0
                    then path_join sub_dir
                           (stem (last target0) @ ''_'' @ rand saved @ suffix (last target0))
                    else target0)
      in if is_dir fs target then Inl OSError
         else save_files secure rand sub_dir files (saved + 1)
                (AList.update (resolve target) (File (upload_data f)) fs))"

text \<open>\<open>r["photos"] = v\<close> on the row that \<open>_find_row\<close> returned: the first one with the id.\<close>

fun set_photos :: "string \<Rightarrow> string \<Rightarrow> pyrow list \<Rightarrow> pyrow list" where
  "set_photos sid v [] = []"
| "set_photos sid v (r # rows) =
     (if row_id r = sid then dict_set r ''photos'' (Some v) # rows else r # set_photos sid v rows)"

text \<open>
  The end of \<open>admin_upload\<close> and of \<open>admin_photo_delete\<close>: the \<open>photos\<close> of the row are set
  from the directory and the store is written, when the row exists.
\<close>

definition resync_photos ::
    "config \<Rightarrow> csv_file option \<Rightarrow> filesystem \<Rightarrow> string \<Rightarrow> py_error + csv_file option" where
  "resync_photos cfg f fs sid =
     (case read_all_rows f of
        Inl e \<Rightarrow> Inl e
      | Inr rows \<Rightarrow>
         (case find_row rows sid of
            None \<Rightarrow> Inr f
          | Some r \<Rightarrow>
              if truthy r
              then Inr (Some (write_all_rows (set_photos sid (join '';'' (list_photos cfg fs sid)) rows)))
              else Inr f))"

text \<open>\<open>POST /admin/upload/<sid>\<close>. The framework answers \<open>413\<close> to a request longer than
  \<open>MAX_CONTENT_LENGTH\<close> when the handler reads \<open>request.files\<close>.\<close>

definition admin_upload ::
    "config \<Rightarrow> (string \<Rightarrow> string) \<Rightarrow> (nat \<Rightarrow> string) \<Rightarrow> upload_request \<Rightarrow> session \<Rightarrow> world \<Rightarrow> string
      \<Rightarrow> py_error + (response \<times> world \<times> session)" where
  "admin_upload cfg secure rand req sess w sid =
     (case is_admin cfg sess of
        Inl e \<Rightarrow> Inl e
      | Inr False \<Rightarrow> Inr (Redirect ''/admin/login'', w, sess)
      | Inr True \<Rightarrow>
          if content_length req > MAX_CONTENT_LENGTH cfg then Inr (Abort 413, w, sess)
          else let files = filter (\<lambda>f. upload_filename f \<noteq> '''') (photos_field req)
            in if files = [] then Inr (Redirect (''/admin/edit/'' @ sid), w, flash ''no files chosen'' sess)
               else let sub_dir = path_join (UPLOADS_DIR cfg) sid
                 in case mkdir_parents (disk w) sub_dir of
                      Inl e \<Rightarrow> Inl e
                    | Inr fs1 \<Rightarrow>
                        (case save_files secure rand sub_dir files 0 fs1 of
                           Inl e \<Rightarrow> Inl e
                         | Inr (fs2, saved) \<Rightarrow>
                             (case resync_photos cfg (csv_store w) fs2 sid of
                                Inl e \<Rightarrow> Inl e
                              | Inr store \<Rightarrow>
                                  Inr (Redirect (''/admin/edit/'' @ sid),
                                       \<lparr>csv_store = store, disk = fs2\<rparr>,
                                       flash ''files uploaded'' sess))))"

text \<open>
  \<open>POST /admin/photo_delete/<sid>/<path:filename>\<close>. The path may be that of the store
  file, which is then unlinked as any other regular file is.
\<close>

definition admin_photo_delete ::
    "config \<Rightarrow> session \<Rightarrow> world \<Rightarrow> string \<Rightarrow> string \<Rightarrow> py_error + (response \<times> world)" where
  "admin_photo_delete cfg sess w sid filename =
     (case is_admin cfg sess of
        Inl e \<Rightarrow> Inl e
      | Inr False \<Rightarrow> Inr (Redirect ''/admin/login'', w)
      | Inr True \<Rightarrow>
          let p = resolve (path_join (path_join (UPLOADS_DIR cfg) sid) filename);
              base = resolve (path_join (UPLOADS_DIR cfg) sid)
          in if \<not> startswith (str_path p) (str_path base) then Inr (Abort 400, w)
             else let w' = (if p = SUBMISSIONS_CSV cfg then w\<lparr>csv_store := None\<rparr>
                            else if exists (disk w) p \<and> is_file (disk w) p
                              then w\<lparr>disk := unlink (disk w) p\<rparr>
                            else w)
               in case resync_photos cfg (csv_store w') (disk w') sid of
                    Inl e \<Rightarrow> Inl e
                  | Inr store \<Rightarrow>
                      Inr (Redirect (''/admin/edit/'' @ sid), \<lparr>csv_store = store, disk = disk w'\<rparr>))"

section \<open>A small installation\<close>

text \<open>
  One listing \<open>X1\<close> with the password \<open>abc\<close> and one photo, and a directory \<open>ORPHAN\<close> that no
  row of the store names. The examples below run the routes on it.
\<close>

definition example_config :: config where
  "example_config =
     \<lparr>ADMIN_KEY_env = ''secret'', SUBMISSIONS_CSV = [''srv'', ''data'', ''submissions.csv''],
      UPLOADS_DIR = [''srv'', ''uploads''],
      MAX_FILES = 5, MAX_TOTAL_MB = 25, MAX_FILE_MB = 10\<rparr>"

definition example_row :: "string list" where
  "example_row =
     [''X1'', ''2024-05-01T10:00:00+00:00'', ''material'', ''Book'', ''1500'', '''',
      ''A book'', ''photo.jpg'', ''abc'']"

definition example_store :: "csv_file option" where
  "example_store = Some [csv_columns, example_row]"

definition example_disk :: filesystem where
  "example_disk =
     [([''srv''], Dir), ([''srv'', ''uploads''], Dir),
      ([''srv'', ''uploads'', ''X1''], Dir),
      ([''srv'', ''uploads'', ''X1'', ''photo.jpg''], File ''JPEG''),
      ([''srv'', ''uploads'', ''ORPHAN''], Dir),
      ([''srv'', ''uploads'', ''ORPHAN'', ''old.jpg''], File ''OLD'')]"

definition visitor :: session where
  "visitor = \<lparr>admin_key = None, unlocked_cards = None, flashes = []\<rparr>"

definition administrator :: session where
  "administrator = \<lparr>admin_key = Some ''secret'', unlocked_cards = None, flashes = []\<rparr>"

section \<open>Facts about the store\<close>

lemma password_in_csv_columns: "''password'' \<in> set csv_columns"
  by (simp add: csv_columns_def)

lemma csv_columns_not_Nil: "csv_columns \<noteq> []"
  by (simp add: csv_columns_def)

lemma password_not_in_proper_prefix:
  assumes "missing \<noteq> []" and "header @ missing = csv_columns"
  shows "''password'' \<notin> set header"
proof -
  have d: "distinct csv_columns" by (simp add: csv_columns_def)
  have l: "last csv_columns = ''password''" by (simp add: csv_columns_def)
  from assms l have "''password'' \<in> set missing"
    by (metis last_appendR last_in_set)
  moreover from d assms(2) have "set header \<inter> set missing = {}"
    by (metis distinct_append)
  ultimately show ?thesis by blast
qed

lemma ensure_csv_header_writes_again:
  "ensure_csv_header_writes (ensure_csv_header f) = None"
proof (cases f)
  case None
  then show ?thesis
    by (simp add: ensure_csv_header_def ensure_csv_header_writes_def)
next
  case (Some content)
  show ?thesis
  proof (cases content)
    case Nil
    with Some show ?thesis
      by (simp add: ensure_csv_header_def ensure_csv_header_writes_def)
  next
    case (Cons header rows)
    with Some show ?thesis
      using password_in_csv_columns
      by (auto simp: ensure_csv_header_def ensure_csv_header_writes_def)
  qed
qed

lemma strip_Nil: "strip [] = []"
  by (simp add: strip_def chars_def)

lemma dict_of_row_csv_columns:
  "dict_of_row csv_columns (map g csv_columns) =
     \<lparr>cells = map (\<lambda>c. (c, Some (g c))) csv_columns, rest = None\<rparr>"
  by (simp add: dict_of_row_def csv_columns_def)

lemma py_or_dict_get_default:
  "py_or (dict_get_default r c '''') '''' = py_or (dict_get r c) ''''"
  by (simp add: dict_get_default_def dict_get_def py_or_def split: option.splits)

lemma write_all_rows_eq:
  "write_all_rows rows =
     csv_columns # map (\<lambda>r. map (\<lambda>c. py_or (dict_get r c) '''') csv_columns) rows"
  by (simp add: write_all_rows_def py_or_dict_get_default)

lemma map_of_tabulate:
  "map_of (map (\<lambda>c. (c, g c)) cs) k = (if k \<in> set cs then Some (g k) else None)"
  by (induction cs) auto

text \<open>The record that comes back for a record written: the nine columns of it.\<close>

lemma dict_get_canonical:
  "dict_get \<lparr>cells = map (\<lambda>c. (c, Some (py_or (dict_get r c) ''''))) csv_columns, rest = None\<rparr> k =
     (if k \<in> set csv_columns then Some (py_or (dict_get r k) '''') else None)"
  by (simp add: dict_get_def map_of_tabulate)

lemma row_id_canonical:
  "row_id \<lparr>cells = map (\<lambda>c. (c, Some (py_or (dict_get r c) ''''))) csv_columns, rest = None\<rparr> =
     row_id r"
proof -
  have "''id'' \<in> set csv_columns" by (simp add: csv_columns_def)
  then show ?thesis
    unfolding row_id_def dict_get_canonical by (simp add: py_or_def)
qed

lemma dict_reader_write_all_rows:
  "dict_reader (write_all_rows rows) =
     map (\<lambda>r. \<lparr>cells = map (\<lambda>c. (c, Some (py_or (dict_get r c) ''''))) csv_columns, rest = None\<rparr>)
       rows"
  by (simp add: write_all_rows_eq filter_map o_def csv_columns_not_Nil dict_of_row_csv_columns)

lemma csv_columns_readable: "list_all (\<lambda>cell. \<not> field_too_long cell) csv_columns"
  by code_simp

lemma csv_readable_write_all_rows:
  "csv_readable (write_all_rows rows) \<longleftrightarrow>
     \<not> (\<exists>r \<in> set rows. \<exists>c \<in> set csv_columns. field_too_long (py_or (dict_get r c) ''''))"
  using csv_columns_readable
  by (auto simp: csv_readable_def write_all_rows_eq list_all_iff)

lemma read_all_rows_write_all_rows:
  "read_all_rows (Some (write_all_rows rows)) =
     (if \<exists>r \<in> set rows. \<exists>c \<in> set csv_columns. field_too_long (py_or (dict_get r c) '''')
      then Inl CsvError
      else Inr (map (\<lambda>r. \<lparr>cells = map (\<lambda>c. (c, Some (py_or (dict_get r c) ''''))) csv_columns,
                            rest = None\<rparr>)
                  (filter (\<lambda>r. row_id r \<noteq> '''') rows)))"
  by (simp add: read_all_rows_def csv_readable_write_all_rows dict_reader_write_all_rows filter_map
        o_def row_id_canonical)

lemma find_row_truthy:
  assumes "read_all_rows f = Inr rows" and "find_row rows sid = Some r"
  shows "truthy r"
proof -
  from assms(2) have "r \<in> set rows"
    by (auto simp: find_row_def find_Some_iff)
  with assms(1) have "row_id r \<noteq> ''''"
    by (auto simp: read_all_rows_def split: option.splits if_splits)
  then have "map_of (cells r) ''id'' \<noteq> None"
    by (cases "map_of (cells r) ''id''") (auto simp: row_id_def dict_get_def py_or_def strip_Nil)
  then have "cells r \<noteq> []" by auto
  then show ?thesis by (simp add: truthy_def)
qed

lemma send_from_directory_not_403: "send_from_directory fs d n \<noteq> Abort 403"
  by (simp add: send_from_directory_def Let_def split: option.splits node.splits)

lemma lower_strip_sell: "lower unicode_lower (strip ''sell'') = ''sell''"
proof -
  have "strip ''sell'' = ''sell''" by code_simp
  moreover have "is_ascii ''sell''" by code_simp
  moreover have "map lower_char ''sell'' = ''sell''" by code_simp
  ultimately show ?thesis by (simp add: lower_def)
qed

lemma lower_strip_material: "lower unicode_lower (strip ''material'') = ''material''"
proof -
  have "strip ''material'' = ''material''" by code_simp
  moreover have "is_ascii ''material''" by code_simp
  moreover have "map lower_char ''material'' = ''material''" by code_simp
  ultimately show ?thesis by (simp add: lower_def)
qed

lemma set_newest_first: "set (newest_first xs) = set xs"
  by (simp add: newest_first_def)

lemma set_py_take: "set (py_take n xs) \<subseteq> set xs"
  by (auto simp: py_take_def dest: in_set_takeD)

lemma py_take_all: "int (length xs) \<le> limit \<Longrightarrow> py_take limit xs = xs"
  by (simp add: py_take_def)

lemma admin_submissions_item_kind:
  "item_kind (admin_submissions_item unicode_lower cfg fs r) =
     (if lower unicode_lower (strip (py_or (dict_get r ''kind'') ''sell'')) = ''buy'' then ''buy''
      else ''sell'')"
  by (simp add: admin_submissions_item_def Let_def)

lemma thanks_page:
  assumes "read_all_rows f = Inr rows"
  shows "thanks unicode_lower cfg f fs sid =
     Inr (ThanksPage sid (list_photos cfg fs sid)
       (case find_row rows sid of
          None \<Rightarrow> ''sell''
        | Some r \<Rightarrow>
            if lower unicode_lower (strip (py_or (dict_get r ''kind'') ''sell'')) = ''buy'' then ''buy''
            else ''sell''))"
proof (cases "find_row rows sid")
  case None
  with assms lower_strip_sell [of unicode_lower] show ?thesis
    by (auto simp: thanks_def list_photos_def Let_def)
next
  case (Some r)
  with assms have "truthy r" by (simp add: find_row_truthy)
  with Some assms lower_strip_sell [of unicode_lower] show ?thesis
    by (auto simp: thanks_def list_photos_def Let_def)
qed

lemma load_submissions_item_kind:
  "(dict_get row ''kind'' = None \<or> dict_get row ''kind'' = Some '''' \<longrightarrow>
      item_kind (load_submissions_item unicode_lower row) = ''material'') \<and>
   (\<forall>k. dict_get row ''kind'' = Some k \<and> k \<noteq> '''' \<longrightarrow>
      item_kind (load_submissions_item unicode_lower row) = lower unicode_lower (strip k))"
  using lower_strip_material [of unicode_lower]
  by (auto simp: load_submissions_item_def Let_def py_or_def)

lemma is_admin_caps:
  "is_admin (cfg\<lparr>MAX_FILES := a, MAX_FILE_MB := b\<rparr>) sess = is_admin cfg sess"
  by (simp add: is_admin_def ADMIN_KEY_def Let_def)

lemma list_photos_caps:
  "list_photos (cfg\<lparr>MAX_FILES := a, MAX_FILE_MB := b\<rparr>) fs sid = list_photos cfg fs sid"
  by (simp add: list_photos_def)

lemma resync_photos_caps:
  "resync_photos (cfg\<lparr>MAX_FILES := a, MAX_FILE_MB := b\<rparr>) f fs sid = resync_photos cfg f fs sid"
  by (simp add: resync_photos_def list_photos_caps Let_def cong: option.case_cong sum.case_cong if_cong)

text \<open>
  \<open>admin_upload\<close> never reads \<open>MAX_FILES\<close> or \<open>MAX_FILE_MB\<close>: its outcome is the same for every
  value of the two.
\<close>

lemma admin_upload_caps_unused:
  "admin_upload (cfg\<lparr>MAX_FILES := a, MAX_FILE_MB := b\<rparr>) secure rand req sess w sid =
   admin_upload cfg secure rand req sess w sid"
  by (simp add: admin_upload_def is_admin_caps resync_photos_caps MAX_CONTENT_LENGTH_def Let_def
        cong: sum.case_cong bool.case_cong prod.case_cong if_cong)

text \<open>The cap on the whole request is enforced, and before anything is written.\<close>

lemma admin_upload_total_cap:
  assumes "is_admin cfg sess = Inr True" and "content_length req > MAX_CONTENT_LENGTH cfg"
  shows "admin_upload cfg secure rand req sess w sid = Inr (Abort 413, w, sess)"
  using assms by (simp add: admin_upload_def)

text \<open>With the id \<open>..\<close> the path of \<open>admin_photo_delete\<close> reaches the store file and unlinks it.\<close>

lemma admin_photo_delete_store_file:
  "admin_photo_delete example_config administrator
     \<lparr>csv_store = example_store, disk = example_disk\<rparr> ''..'' ''data/submissions.csv'' =
   Inr (Redirect ''/admin/edit/..'', \<lparr>csv_store = None, disk = example_disk\<rparr>)"
  by code_simp

section \<open>The claims\<close>

text \<open>
  C1. For a request \<open>GET /uploads/<sid>/<filename>\<close> whose id has a record in the store: the
  answer is \<open>403\<close> exactly when the admin check says no, the stored password is not blank
  (not empty after \<open>strip\<close>) and the id is not in the session's unlock set; with admin proof,
  or without it and a blank password or an unlocked id, the answer is that of
  \<open>send_from_directory\<close>.
\<close>

theorem uploads_access_gate:
  assumes "read_all_rows f = Inr rows" and "find_row rows sid = Some r"
  shows "(uploads cfg f sess fs sid filename = Inr (Abort 403) \<longleftrightarrow>
            is_admin cfg sess = Inr False \<and>
            strip (py_or (dict_get r ''password'') '''') \<noteq> '''' \<and>
            sid \<notin> set (unlocked_list sess)) \<and>
         (is_admin cfg sess = Inr True \<or>
          is_admin cfg sess = Inr False \<and>
            (strip (py_or (dict_get r ''password'') '''') = '''' \<or> sid \<in> set (unlocked_list sess))
          \<longrightarrow> uploads cfg f sess fs sid filename =
                Inr (send_from_directory fs (path_join (UPLOADS_DIR cfg) sid) filename))"
proof -
  have t: "truthy r" using assms by (rule find_row_truthy)
  show ?thesis
  proof (cases "is_admin cfg sess")
    case (Inl e)
    then show ?thesis by (simp add: uploads_def)
  next
    case (Inr admin)
    with assms t show ?thesis
      using send_from_directory_not_403 [of fs "path_join (UPLOADS_DIR cfg) sid" filename]
      by (simp add: uploads_def Let_def)
  qed
qed

text \<open>
  The scenario of the specification: the photo of \<open>X1\<close> (password \<open>abc\<close>) is refused to a
  visitor, and served once \<open>X1\<close> is in the unlock set. With the stored password a no-break
  space (U+00A0), which \<open>strip\<close> removes, the photo is served to the visitor.
\<close>

theorem uploads_access_gate_witness:
  "uploads example_config example_store visitor example_disk ''X1'' ''photo.jpg'' = Inr (Abort 403) \<and>
   uploads example_config example_store (visitor\<lparr>unlocked_cards := Some [''X1'']\<rparr>) example_disk
     ''X1'' ''photo.jpg'' = Inr (SendFile ''JPEG'') \<and>
   uploads example_config
     (Some [csv_columns,
        [''X1'', ''2024-05-01T10:00:00+00:00'', ''material'', ''Book'', ''1500'', '''', ''A book'',
         ''photo.jpg'', [CHR 0xC2, CHR 0xA0]]])
     visitor example_disk ''X1'' ''photo.jpg'' = Inr (SendFile ''JPEG'')"
proof -
  have rd: "read_all_rows example_store = Inr [dict_of_row csv_columns example_row]"
    by code_simp
  have fr: "find_row [dict_of_row csv_columns example_row] ''X1'' =
              Some (dict_of_row csv_columns example_row)"
    by code_simp
  have pw: "strip (py_or (dict_get (dict_of_row csv_columns example_row) ''password'') '''') = ''abc''"
    by code_simp
  have a1: "is_admin example_config visitor = Inr False"
    by code_simp
  have a2: "is_admin example_config (visitor\<lparr>unlocked_cards := Some [''X1'']\<rparr>) = Inr False"
    by code_simp
  have u1: "unlocked_list visitor = []"
    by code_simp
  have u2: "unlocked_list (visitor\<lparr>unlocked_cards := Some [''X1'']\<rparr>) = [''X1'']"
    by code_simp
  have s: "send_from_directory example_disk (path_join (UPLOADS_DIR example_config) ''X1'') ''photo.jpg'' =
             SendFile ''JPEG''"
    by code_simp
  have rd': "read_all_rows
      (Some [csv_columns,
        [''X1'', ''2024-05-01T10:00:00+00:00'', ''material'', ''Book'', ''1500'', '''', ''A book'',
         ''photo.jpg'', [CHR 0xC2, CHR 0xA0]]]) =
      Inr [dict_of_row csv_columns
        [''X1'', ''2024-05-01T10:00:00+00:00'', ''material'', ''Book'', ''1500'', '''', ''A book'',
         ''photo.jpg'', [CHR 0xC2, CHR 0xA0]]]"
    by code_simp
  have fr': "find_row [dict_of_row csv_columns
        [''X1'', ''2024-05-01T10:00:00+00:00'', ''material'', ''Book'', ''1500'', '''', ''A book'',
         ''photo.jpg'', [CHR 0xC2, CHR 0xA0]]] ''X1'' =
      Some (dict_of_row csv_columns
        [''X1'', ''2024-05-01T10:00:00+00:00'', ''material'', ''Book'', ''1500'', '''', ''A book'',
         ''photo.jpg'', [CHR 0xC2, CHR 0xA0]])"
    by code_simp
  have pw': "strip (py_or (dict_get (dict_of_row csv_columns
        [''X1'', ''2024-05-01T10:00:00+00:00'', ''material'', ''Book'', ''1500'', '''', ''A book'',
         ''photo.jpg'', [CHR 0xC2, CHR 0xA0]]) ''password'') '''') = ''''"
    by code_simp
  from uploads_access_gate [OF rd fr, of example_config visitor example_disk "''photo.jpg''"] pw a1 u1
  have "uploads example_config example_store visitor example_disk ''X1'' ''photo.jpg'' = Inr (Abort 403)"
    by simp
  moreover
  from uploads_access_gate [OF rd fr, of example_config "visitor\<lparr>unlocked_cards := Some [''X1'']\<rparr>"
      example_disk "''photo.jpg''"] a2 u2 s
  have "uploads example_config example_store (visitor\<lparr>unlocked_cards := Some [''X1'']\<rparr>) example_disk
     ''X1'' ''photo.jpg'' = Inr (SendFile ''JPEG'')"
    by simp
  moreover
  from uploads_access_gate [OF rd' fr', of example_config visitor example_disk "''photo.jpg''"] pw' a1 s
  have "uploads example_config
     (Some [csv_columns,
        [''X1'', ''2024-05-01T10:00:00+00:00'', ''material'', ''Book'', ''1500'', '''', ''A book'',
         ''photo.jpg'', [CHR 0xC2, CHR 0xA0]]])
     visitor example_disk ''X1'' ''photo.jpg'' = Inr (SendFile ''JPEG'')"
    by simp
  ultimately show ?thesis by simp
qed

text \<open>
  The claim as stated fails on a stored password that is not empty but blank: the visitor
  holds no admin proof and has unlocked nothing, the stored password is two spaces, and the
  photo is served.
\<close>

theorem uploads_blank_password_counterexample:
  "dict_get (dict_of_row csv_columns
      [''X1'', ''2024-05-01T10:00:00+00:00'', ''material'', ''Book'', ''1500'', '''', ''A book'',
       ''photo.jpg'', ''  '']) ''password'' = Some ''  '' \<and>
   is_admin example_config visitor = Inr False \<and>
   unlocked_list visitor = [] \<and>
   uploads example_config
     (Some [csv_columns,
        [''X1'', ''2024-05-01T10:00:00+00:00'', ''material'', ''Book'', ''1500'', '''', ''A book'',
         ''photo.jpg'', ''  '']])
     visitor example_disk ''X1'' ''photo.jpg'' = Inr (SendFile ''JPEG'')"
  by code_simp

text \<open>
  C2. \<open>MAX_FILES\<close> is five and six files are submitted: \<open>admin_upload\<close> saves all six and
  writes their names to the row. The caps on the number of files and on the size of a file
  are not enforced.
\<close>

theorem admin_upload_six_files:
  "admin_upload example_config (\<lambda>name. name) (\<lambda>n. ''0a1b2c'')
     \<lparr>content_length = 4096,
      photos_field =
        [\<lparr>upload_filename = ''p1.jpg'', upload_data = ''one''\<rparr>,
         \<lparr>upload_filename = ''p2.jpg'', upload_data = ''two''\<rparr>,
         \<lparr>upload_filename = ''p3.jpg'', upload_data = ''three''\<rparr>,
         \<lparr>upload_filename = ''p4.jpg'', upload_data = ''four''\<rparr>,
         \<lparr>upload_filename = ''p5.jpg'', upload_data = ''five''\<rparr>,
         \<lparr>upload_filename = ''p6.jpg'', upload_data = ''six''\<rparr>]\<rparr>
     administrator
     \<lparr>csv_store = example_store,
      disk = [([''srv''], Dir), ([''srv'', ''uploads''], Dir)]\<rparr>
     ''X1'' =
   Inr (Redirect ''/admin/edit/X1'',
        \<lparr>csv_store =
           Some [csv_columns,
             [''X1'', ''2024-05-01T10:00:00+00:00'', ''material'', ''Book'', ''1500'', '''',
              ''A book'', ''p1.jpg;p2.jpg;p3.jpg;p4.jpg;p5.jpg;p6.jpg'', ''abc'']],
         disk =
           [([''srv''], Dir), ([''srv'', ''uploads''], Dir),
            ([''srv'', ''uploads'', ''X1''], Dir),
            ([''srv'', ''uploads'', ''X1'', ''p1.jpg''], File ''one''),
            ([''srv'', ''uploads'', ''X1'', ''p2.jpg''], File ''two''),
            ([''srv'', ''uploads'', ''X1'', ''p3.jpg''], File ''three''),
            ([''srv'', ''uploads'', ''X1'', ''p4.jpg''], File ''four''),
            ([''srv'', ''uploads'', ''X1'', ''p5.jpg''], File ''five''),
            ([''srv'', ''uploads'', ''X1'', ''p6.jpg''], File ''six'')]\<rparr>,
        administrator\<lparr>flashes := [''files uploaded'']\<rparr>)"
  by code_simp

text \<open>
  C3. The check of \<open>admin_photo_delete\<close> compares the two paths as strings. For the id
  \<open>X\<close> and the name \<open>../X1/photo.jpg\<close> the resolved path \<open>/srv/uploads/X1/photo.jpg\<close> starts
  with \<open>/srv/uploads/X\<close>, so the photo of the other listing \<open>X1\<close> is unlinked and the answer is
  a redirect, not \<open>400\<close>.
\<close>

theorem admin_photo_delete_sibling_directory:
  "admin_photo_delete example_config administrator
     \<lparr>csv_store = example_store, disk = example_disk\<rparr> ''X'' ''../X1/photo.jpg'' =
   Inr (Redirect ''/admin/edit/X'',
        \<lparr>csv_store = example_store,
         disk =
           [([''srv''], Dir), ([''srv'', ''uploads''], Dir),
            ([''srv'', ''uploads'', ''X1''], Dir),
            ([''srv'', ''uploads'', ''ORPHAN''], Dir),
            ([''srv'', ''uploads'', ''ORPHAN'', ''old.jpg''], File ''OLD'')]\<rparr>)"
  by code_simp

text \<open>
  C4. On a file that has a header row, \<open>_ensure_csv_header\<close> writes exactly when the header
  has no column \<open>password\<close>: it appends \<open>password\<close> to the header and an empty cell to every
  later row, whatever else the header holds. A header with a \<open>password\<close> column is left
  alone. So every header that is the expected one without its newest column or columns is
  migrated, and a file without rows gets the expected header.
\<close>

theorem ensure_csv_header_policy:
  "(ensure_csv_header_writes (Some (header # rows)) = None \<longleftrightarrow> ''password'' \<in> set header) \<and>
   ensure_csv_header (Some (header # rows)) =
     (if ''password'' \<in> set header then Some (header # rows)
      else Some ((header @ [''password'']) # map (\<lambda>r. r @ ['''']) rows)) \<and>
   (\<forall>missing. missing \<noteq> [] \<and> header @ missing = csv_columns \<longrightarrow>
      ensure_csv_header_writes (Some (header # rows)) \<noteq> None) \<and>
   ensure_csv_header (Some []) = Some [csv_columns]"
proof -
  have iff: "ensure_csv_header_writes (Some (header # rows)) = None \<longleftrightarrow> ''password'' \<in> set header"
    using password_in_csv_columns by (auto simp: ensure_csv_header_writes_def)
  have res: "ensure_csv_header (Some (header # rows)) =
     (if ''password'' \<in> set header then Some (header # rows)
      else Some ((header @ [''password'']) # map (\<lambda>r. r @ ['''']) rows))"
    using password_in_csv_columns
    by (auto simp: ensure_csv_header_def ensure_csv_header_writes_def)
  have pre: "\<forall>missing. missing \<noteq> [] \<and> header @ missing = csv_columns \<longrightarrow>
      ensure_csv_header_writes (Some (header # rows)) \<noteq> None"
    using iff password_not_in_proper_prefix by blast
  have emp: "ensure_csv_header (Some []) = Some [csv_columns]"
    by (simp add: ensure_csv_header_def ensure_csv_header_writes_def)
  from iff res pre emp show ?thesis by blast
qed

text \<open>A store written before the column \<open>password\<close> existed is migrated.\<close>

theorem ensure_csv_header_policy_witness:
  "ensure_csv_header
     (Some [[''id'', ''created_utc'', ''kind'', ''title'', ''price_tenge'', ''phone'', ''description'',
             ''photos''],
            [''X1'', ''2024-05-01T10:00:00+00:00'', ''material'', ''Book'', ''1500'', '''', ''A book'',
             ''photo.jpg'']]) =
   Some [csv_columns,
         [''X1'', ''2024-05-01T10:00:00+00:00'', ''material'', ''Book'', ''1500'', '''', ''A book'',
          ''photo.jpg'', '''']]"
  using ensure_csv_header_policy
    [of "[''id'', ''created_utc'', ''kind'', ''title'', ''price_tenge'', ''phone'', ''description'',
          ''photos'']"
        "[[''X1'', ''2024-05-01T10:00:00+00:00'', ''material'', ''Book'', ''1500'', '''', ''A book'',
           ''photo.jpg'']]"]
  by (simp add: csv_columns_def)

text \<open>
  The claim as stated fails on a header that differs from the expected one by more than its
  newest columns: the header \<open>id, title\<close> lacks \<open>created_utc\<close> and \<open>kind\<close> before \<open>title\<close>, and
  the file is rewritten all the same.
\<close>

theorem ensure_csv_header_counterexample:
  "ensure_csv_header (Some [[''id'', ''title''], [''X1'', ''Book'']]) =
     Some [[''id'', ''title'', ''password''], [''X1'', ''Book'', '''']]"
  by code_simp

text \<open>
  C5. The public feed gives a row without a \<open>kind\<close>, or with an empty one, the kind
  \<open>material\<close>, and every other row its stored kind after \<open>strip\<close> and \<open>lower\<close>, whether it is
  one of the enum or not; the items of the feed are those of the rows with an id, all of
  them when the limit does not cut the feed. The admin feed and the thanks page give \<open>buy\<close>
  to a row whose kind is \<open>buy\<close> after \<open>strip\<close> and \<open>lower\<close>, and \<open>sell\<close> to every other row, a
  row without a kind and an id without a row included.
\<close>

theorem kind_defaults:
  "(dict_get row ''kind'' = None \<or> dict_get row ''kind'' = Some '''' \<longrightarrow>
      item_kind (load_submissions_item unicode_lower row) = ''material'') \<and>
   (\<forall>k. dict_get row ''kind'' = Some k \<and> k \<noteq> '''' \<longrightarrow>
      item_kind (load_submissions_item unicode_lower row) = lower unicode_lower (strip k)) \<and>
   (\<forall>items. load_submissions unicode_lower (Some content) limit = Inr items \<longrightarrow>
      (\<forall>it \<in> set items. \<exists>r \<in> set (dict_reader content).
         row_id r \<noteq> '''' \<and> it = load_submissions_item unicode_lower r) \<and>
      (int (length (dict_reader content)) \<le> limit \<longrightarrow>
         set items =
           load_submissions_item unicode_lower ` {r \<in> set (dict_reader content). row_id r \<noteq> ''''})) \<and>
   item_kind (admin_submissions_item unicode_lower cfg fs row) =
     (if lower unicode_lower (strip (py_or (dict_get row ''kind'') ''sell'')) = ''buy'' then ''buy''
      else ''sell'') \<and>
   (\<forall>rows items. read_all_rows f = Inr rows \<and>
        admin_submissions unicode_lower cfg f fs limit = Inr items \<longrightarrow>
      (\<forall>it \<in> set items. \<exists>r \<in> set rows. it = admin_submissions_item unicode_lower cfg fs r) \<and>
      (\<forall>it \<in> set items. item_kind it = ''buy'' \<or> item_kind it = ''sell'')) \<and>
   (\<forall>rows. read_all_rows f = Inr rows \<longrightarrow>
      thanks unicode_lower cfg f fs sid =
        Inr (ThanksPage sid (list_photos cfg fs sid)
          (case find_row rows sid of
             None \<Rightarrow> ''sell''
           | Some r \<Rightarrow>
               if lower unicode_lower (strip (py_or (dict_get r ''kind'') ''sell'')) = ''buy''
               then ''buy'' else ''sell'')))"
proof -
  let ?with_id = "filter (\<lambda>row. strip (py_or (dict_get row ''id'') '''') \<noteq> '''') (dict_reader content)"
  have feed: "\<forall>items. load_submissions unicode_lower (Some content) limit = Inr items \<longrightarrow>
      (\<forall>it \<in> set items. \<exists>r \<in> set (dict_reader content).
         row_id r \<noteq> '''' \<and> it = load_submissions_item unicode_lower r) \<and>
      (int (length (dict_reader content)) \<le> limit \<longrightarrow>
         set items =
           load_submissions_item unicode_lower ` {r \<in> set (dict_reader content). row_id r \<noteq> ''''})"
  proof (intro allI impI)
    fix items
    assume "load_submissions unicode_lower (Some content) limit = Inr items"
    then have items: "items =
        py_take limit (newest_first (map (load_submissions_item unicode_lower) ?with_id))"
      by (simp add: load_submissions_def split: if_splits)
    have sub: "set items \<subseteq> load_submissions_item unicode_lower ` set ?with_id"
      unfolding items using set_py_take set_newest_first by fastforce
    have part: "\<forall>it \<in> set items. \<exists>r \<in> set (dict_reader content).
         row_id r \<noteq> '''' \<and> it = load_submissions_item unicode_lower r"
      using sub by (auto simp: row_id_def)
    have whole: "set items =
        load_submissions_item unicode_lower ` {r \<in> set (dict_reader content). row_id r \<noteq> ''''}"
      if "int (length (dict_reader content)) \<le> limit"
    proof -
      have "length (newest_first (map (load_submissions_item unicode_lower) ?with_id)) \<le>
              length (dict_reader content)"
        by (simp add: newest_first_def)
      with that have "items = newest_first (map (load_submissions_item unicode_lower) ?with_id)"
        unfolding items by (intro py_take_all) linarith
      then show ?thesis
        by (auto simp: set_newest_first row_id_def)
    qed
    from part whole show "(\<forall>it \<in> set items. \<exists>r \<in> set (dict_reader content).
         row_id r \<noteq> '''' \<and> it = load_submissions_item unicode_lower r) \<and>
      (int (length (dict_reader content)) \<le> limit \<longrightarrow>
         set items =
           load_submissions_item unicode_lower ` {r \<in> set (dict_reader content). row_id r \<noteq> ''''})"
      by blast
  qed
  have admin: "\<forall>rows items. read_all_rows f = Inr rows \<and>
        admin_submissions unicode_lower cfg f fs limit = Inr items \<longrightarrow>
      (\<forall>it \<in> set items. \<exists>r \<in> set rows. it = admin_submissions_item unicode_lower cfg fs r) \<and>
      (\<forall>it \<in> set items. item_kind it = ''buy'' \<or> item_kind it = ''sell'')"
  proof (intro allI impI)
    fix rows items
    assume a: "read_all_rows f = Inr rows \<and>
        admin_submissions unicode_lower cfg f fs limit = Inr items"
    then have "items =
        py_take limit (newest_first (map (admin_submissions_item unicode_lower cfg fs) rows))"
      by (auto simp: admin_submissions_def)
    then have sub: "set items \<subseteq> admin_submissions_item unicode_lower cfg fs ` set rows"
      using set_py_take set_newest_first by fastforce
    then have kinds: "\<forall>it \<in> set items. item_kind it = ''buy'' \<or> item_kind it = ''sell''"
      by (auto simp: admin_submissions_item_kind split: if_splits)
    from sub kinds show "(\<forall>it \<in> set items. \<exists>r \<in> set rows.
          it = admin_submissions_item unicode_lower cfg fs r) \<and>
      (\<forall>it \<in> set items. item_kind it = ''buy'' \<or> item_kind it = ''sell'')"
      by blast
  qed
  from load_submissions_item_kind [of row unicode_lower] feed admin
    admin_submissions_item_kind [of unicode_lower cfg fs row] thanks_page [of f _ unicode_lower cfg fs sid]
  show ?thesis by blast
qed

text \<open>
  A store with a row of kind \<open>material\<close>, a row with an empty kind and a row whose kind is
  \<open>BUY\<close> with a no-break space (U+00A0) after it: the public feed shows \<open>buy\<close>, \<open>material\<close>
  and \<open>material\<close>, the admin feed \<open>buy\<close>, \<open>sell\<close> and \<open>sell\<close>, and the thanks page of \<open>X1\<close>
  \<open>sell\<close>.
\<close>

theorem kind_defaults_witness:
  "map_sum id (map item_kind)
     (load_submissions (\<lambda>s. s)
        (Some [csv_columns, example_row,
               [''X2'', ''2024-05-02T10:00:00+00:00'', '''', ''Pen'', ''200'', '''', '''', '''', ''''],
               [''X3'', ''2024-05-03T10:00:00+00:00'', [CHR ''B'', CHR ''U'', CHR ''Y'', CHR 0xC2, CHR 0xA0],
                ''Ink'', ''300'', '''', '''', '''', '''']])
        200) = Inr [''buy'', ''material'', ''material''] \<and>
   map_sum id (map item_kind)
     (admin_submissions (\<lambda>s. s) example_config
        (Some [csv_columns, example_row,
               [''X2'', ''2024-05-02T10:00:00+00:00'', '''', ''Pen'', ''200'', '''', '''', '''', ''''],
               [''X3'', ''2024-05-03T10:00:00+00:00'', [CHR ''B'', CHR ''U'', CHR ''Y'', CHR 0xC2, CHR 0xA0],
                ''Ink'', ''300'', '''', '''', '''', '''']])
        example_disk 500) = Inr [''buy'', ''sell'', ''sell''] \<and>
   thanks (\<lambda>s. s) example_config example_store example_disk ''X1'' =
     Inr (ThanksPage ''X1'' [''photo.jpg''] ''sell'')"
proof -
  have e: "map_sum id (map item_kind)
     (load_submissions (\<lambda>s. s)
        (Some [csv_columns, example_row,
               [''X2'', ''2024-05-02T10:00:00+00:00'', '''', ''Pen'', ''200'', '''', '''', '''', ''''],
               [''X3'', ''2024-05-03T10:00:00+00:00'', [CHR ''B'', CHR ''U'', CHR ''Y'', CHR 0xC2, CHR 0xA0],
                ''Ink'', ''300'', '''', '''', '''', '''']])
        200) = Inr [''buy'', ''material'', ''material''] \<and>
   map_sum id (map item_kind)
     (admin_submissions (\<lambda>s. s) example_config
        (Some [csv_columns, example_row,
               [''X2'', ''2024-05-02T10:00:00+00:00'', '''', ''Pen'', ''200'', '''', '''', '''', ''''],
               [''X3'', ''2024-05-03T10:00:00+00:00'', [CHR ''B'', CHR ''U'', CHR ''Y'', CHR 0xC2, CHR 0xA0],
                ''Ink'', ''300'', '''', '''', '''', '''']])
        example_disk 500) = Inr [''buy'', ''sell'', ''sell'']"
    by code_simp
  have rd: "read_all_rows example_store = Inr [dict_of_row csv_columns example_row]"
    by code_simp
  have fr: "find_row [dict_of_row csv_columns example_row] ''X1'' =
              Some (dict_of_row csv_columns example_row)"
    by code_simp
  have k: "lower (\<lambda>s. s) (strip (py_or (dict_get (dict_of_row csv_columns example_row) ''kind'') ''sell'')) =
             ''material''"
    by code_simp
  have p: "list_photos example_config example_disk ''X1'' = [''photo.jpg'']"
    by code_simp
  from kind_defaults [where unicode_lower = "\<lambda>s. s" and cfg = example_config and f = example_store
      and fs = example_disk and sid = "''X1''"] rd fr k p
  have "thanks (\<lambda>s. s) example_config example_store example_disk ''X1'' =
     Inr (ThanksPage ''X1'' [''photo.jpg''] ''sell'')"
    by simp
  with e show ?thesis by simp
qed

text \<open>
  The claim as stated fails on a kind outside the enum: the public feed shows the stored
  kind \<open>rent\<close> as it is, not \<open>material\<close>.
\<close>

theorem public_feed_kind_counterexample:
  "map_sum id (map item_kind)
     (load_submissions (\<lambda>s. s)
        (Some [csv_columns,
               [''X1'', ''2024-05-01T10:00:00+00:00'', ''rent'', ''Book'', ''1500'', '''', ''A book'',
                ''photo.jpg'', '''']])
        200) = Inr [''rent'']"
  by code_simp

text \<open>
  C6. Writing a list of records with \<open>_write_all_rows\<close> and reading the file with
  \<open>_read_all_rows\<close>: when a value written is longer than the reader's limit of 131072
  characters, the reader raises. Otherwise the read gives, in the same order, one record for
  every record whose id is not blank (not empty after \<open>strip\<close>): it has the nine columns and
  no other key, and each column holds the record's string for it, or the empty string when
  the record has no such key or holds \<open>None\<close> there. Records with a blank id are not
  returned.
\<close>

theorem write_read_roundtrip:
  "read_all_rows (Some (write_all_rows rows)) =
     (if \<exists>r \<in> set rows. \<exists>c \<in> set csv_columns. field_too_long (py_or (dict_get r c) '''')
      then Inl CsvError
      else Inr (map (\<lambda>r. \<lparr>cells = map (\<lambda>c. (c, Some (py_or (dict_get r c) ''''))) csv_columns,
                            rest = None\<rparr>)
                  (filter (\<lambda>r. row_id r \<noteq> '''') rows)))"
  by (rule read_all_rows_write_all_rows)

text \<open>
  A record with a missing title comes back with an empty one, and a record whose id is an
  ideographic space (U+3000) does not come back.
\<close>

theorem write_read_roundtrip_witness:
  "read_all_rows (Some (write_all_rows
      [\<lparr>cells = [(''id'', Some ''X1''), (''title'', None), (''phone'', Some '' +7 700 ''),
                 (''description'', Some ''a, b'')],
        rest = None\<rparr>,
       \<lparr>cells = [(''id'', Some [CHR 0xE3, CHR 0x80, CHR 0x80]), (''title'', Some ''Lamp'')],
        rest = None\<rparr>])) =
   Inr [\<lparr>cells = [(''id'', Some ''X1''), (''created_utc'', Some ''''), (''kind'', Some ''''),
              (''title'', Some ''''), (''price_tenge'', Some ''''), (''phone'', Some '' +7 700 ''),
              (''description'', Some ''a, b''), (''photos'', Some ''''), (''password'', Some '''')],
      rest = None\<rparr>]"
proof -
  have "(if \<exists>r \<in> set
            [\<lparr>cells = [(''id'', Some ''X1''), (''title'', None), (''phone'', Some '' +7 700 ''),
                       (''description'', Some ''a, b'')],
              rest = None\<rparr>,
             \<lparr>cells = [(''id'', Some [CHR 0xE3, CHR 0x80, CHR 0x80]), (''title'', Some ''Lamp'')],
              rest = None\<rparr>].
          \<exists>c \<in> set csv_columns. field_too_long (py_or (dict_get r c) '''')
      then Inl CsvError
      else Inr (map (\<lambda>r. \<lparr>cells = map (\<lambda>c. (c, Some (py_or (dict_get r c) ''''))) csv_columns,
                            rest = None\<rparr>)
                  (filter (\<lambda>r. row_id r \<noteq> '''')
                    [\<lparr>cells = [(''id'', Some ''X1''), (''title'', None), (''phone'', Some '' +7 700 ''),
                               (''description'', Some ''a, b'')],
                      rest = None\<rparr>,
                     \<lparr>cells = [(''id'', Some [CHR 0xE3, CHR 0x80, CHR 0x80]), (''title'', Some ''Lamp'')],
                      rest = None\<rparr>]))) =
   Inr [\<lparr>cells = [(''id'', Some ''X1''), (''created_utc'', Some ''''), (''kind'', Some ''''),
              (''title'', Some ''''), (''price_tenge'', Some ''''), (''phone'', Some '' +7 700 ''),
              (''description'', Some ''a, b''), (''photos'', Some ''''), (''password'', Some '''')],
      rest = None\<rparr>]"
    by code_simp
  then show ?thesis
    by (simp only: write_read_roundtrip)
qed

text \<open>
  The claim as stated fails on a record whose id is not empty but blank, which is not
  returned at all, and on a key outside the nine columns, which is not returned either: of
  the two records written, one comes back, without its \<open>note\<close>.
\<close>

theorem write_read_roundtrip_counterexample:
  "read_all_rows (Some (write_all_rows
      [\<lparr>cells = [(''id'', Some '' ''), (''title'', Some ''Lamp'')], rest = None\<rparr>,
       \<lparr>cells = [(''id'', Some ''X1''), (''note'', Some ''fragile'')], rest = None\<rparr>])) =
   Inr [\<lparr>cells = [(''id'', Some ''X1''), (''created_utc'', Some ''''), (''kind'', Some ''''),
              (''title'', Some ''''), (''price_tenge'', Some ''''), (''phone'', Some ''''),
              (''description'', Some ''''), (''photos'', Some ''''), (''password'', Some '''')],
      rest = None\<rparr>]"
  by code_simp

text \<open>
  C7. The header migration is idempotent: on the file a first run leaves behind (created,
  migrated or left alone), a second run writes nothing, so the file is what it was.
\<close>

theorem ensure_csv_header_idempotent:
  "ensure_csv_header_writes (ensure_csv_header f) = None \<and>
   ensure_csv_header (ensure_csv_header f) = ensure_csv_header f"
proof -
  have w: "ensure_csv_header_writes (ensure_csv_header f) = None"
    by (rule ensure_csv_header_writes_again)
  have "ensure_csv_header (ensure_csv_header f) = ensure_csv_header f"
    unfolding ensure_csv_header_def [of "ensure_csv_header f"] w by simp
  with w show ?thesis by simp
qed

text \<open>
  C8. When the id is already in the session's unlock set, a request to unlock it that
  returns leaves the key \<open>unlocked_cards\<close> of the session as it is, the successful one
  included.
\<close>

theorem unlock_idempotent:
  assumes "sid \<in> set (unlocked_list sess)"
      and "unlock f sess sid form_password = Inr (resp, sess')"
  shows "unlocked_cards sess' = unlocked_cards sess \<and> unlocked_list sess' = unlocked_list sess"
proof -
  from assms(1) have "unlocked_cards sess = Some (unlocked_list sess)"
    by (cases "unlocked_cards sess") (simp_all add: unlocked_list_def)
  with assms have "unlocked_cards sess' = unlocked_cards sess"
    by (auto simp: unlock_def Let_def flash_def split: option.splits if_splits sum.splits bool.splits)
  then show ?thesis by (simp add: unlocked_list_def)
qed

text \<open>
  The right password unlocks \<open>X1\<close> for a visitor; the same request again succeeds and
  leaves the session as it is.
\<close>

theorem unlock_idempotent_witness:
  "unlock example_store visitor ''X1'' (Some ''abc'') =
     Inr (Redirect ''/'', visitor\<lparr>unlocked_cards := Some [''X1'']\<rparr>) \<and>
   unlock example_store (visitor\<lparr>unlocked_cards := Some [''X1'']\<rparr>) ''X1'' (Some ''abc'') =
     Inr (Redirect ''/'', visitor\<lparr>unlocked_cards := Some [''X1'']\<rparr>) \<and>
   unlocked_list (visitor\<lparr>unlocked_cards := Some [''X1'']\<rparr>) = [''X1'']"
proof -
  have first: "unlock example_store visitor ''X1'' (Some ''abc'') =
     Inr (Redirect ''/'', visitor\<lparr>unlocked_cards := Some [''X1'']\<rparr>)"
    by code_simp
  have again: "unlock example_store (visitor\<lparr>unlocked_cards := Some [''X1'']\<rparr>) ''X1'' (Some ''abc'') =
     Inr (Redirect ''/'', visitor\<lparr>unlocked_cards := Some [''X1'']\<rparr>)"
    by code_simp
  have m: "''X1'' \<in> set (unlocked_list (visitor\<lparr>unlocked_cards := Some [''X1'']\<rparr>))"
    by (simp add: unlocked_list_def)
  from unlock_idempotent [OF m again]
  have "unlocked_list (visitor\<lparr>unlocked_cards := Some [''X1'']\<rparr>) = [''X1'']"
    by (simp add: unlocked_list_def)
  with first again show ?thesis by simp
qed

text \<open>
  C9. For an id that has no record in the store, \<open>GET /uploads/<sid>/<filename>\<close> is never
  answered \<open>403\<close>, and for a requester without admin proof the answer is that of
  \<open>send_from_directory\<close>, whatever the session: a file of that name in that directory is
  served.
\<close>

theorem uploads_without_record:
  assumes "read_all_rows f = Inr rows" and "find_row rows sid = None"
  shows "uploads cfg f sess fs sid filename \<noteq> Inr (Abort 403) \<and>
         (is_admin cfg sess = Inr False \<longrightarrow>
            uploads cfg f sess fs sid filename =
              Inr (send_from_directory fs (path_join (UPLOADS_DIR cfg) sid) filename))"
  using assms send_from_directory_not_403 [of fs "path_join (UPLOADS_DIR cfg) sid" filename]
  by (cases "is_admin cfg sess") (simp_all add: uploads_def Let_def)

text \<open>The file in the directory \<open>ORPHAN\<close>, which has no row, is served to a visitor.\<close>

theorem uploads_without_record_witness:
  "read_all_rows example_store = Inr [dict_of_row csv_columns example_row] \<and>
   find_row [dict_of_row csv_columns example_row] ''ORPHAN'' = None \<and>
   uploads example_config example_store visitor example_disk ''ORPHAN'' ''old.jpg'' =
     Inr (SendFile ''OLD'')"
proof -
  have rd: "read_all_rows example_store = Inr [dict_of_row csv_columns example_row]"
    by code_simp
  have fr: "find_row [dict_of_row csv_columns example_row] ''ORPHAN'' = None"
    by code_simp
  have a: "is_admin example_config visitor = Inr False"
    by code_simp
  have s: "send_from_directory example_disk (path_join (UPLOADS_DIR example_config) ''ORPHAN'')
             ''old.jpg'' = SendFile ''OLD''"
    by code_simp
  from uploads_without_record [OF rd fr, of example_config visitor example_disk "''old.jpg''"] a s
  have "uploads example_config example_store visitor example_disk ''ORPHAN'' ''old.jpg'' =
     Inr (SendFile ''OLD'')"
    by simp
  with rd fr show ?thesis by simp
qed

text \<open>
  A stored id with a no-break space (U+00A0) after it is the id without it for \<open>_find_row\<close>:
  the record of \<open>X1\<close> is found and its photo is refused to a visitor.
\<close>

lemma uploads_padded_id:
  "uploads example_config
     (Some [csv_columns,
        [[CHR ''X'', CHR ''1'', CHR 0xC2, CHR 0xA0], ''2024-05-01T10:00:00+00:00'', ''material'',
         ''Book'', ''1500'', '''', ''A book'', ''photo.jpg'', ''abc'']])
     visitor example_disk ''X1'' ''photo.jpg'' = Inr (Abort 403)"
  by code_simp

text \<open>
  C10. \<open>_write_all_rows\<close> projects every record onto the nine columns. The file it writes
  is the header and, for each record in order, the nine values of the record (the empty
  string for a missing one); two lists of records that agree on the nine columns give the
  same file, whatever other keys they hold. What a read of that file returns are the
  records with an id, each with the nine columns as its only keys: a column holds the value
  written, and a key outside the nine columns is absent.
\<close>

theorem write_all_rows_projects:
  "write_all_rows rows =
     csv_columns # map (\<lambda>r. map (\<lambda>c. py_or (dict_get r c) '''') csv_columns) rows \<and>
   (list_all2 (\<lambda>r r'. \<forall>c \<in> set csv_columns. dict_get r c = dict_get r' c) rows rows' \<longrightarrow>
      write_all_rows rows = write_all_rows rows') \<and>
   (\<forall>rs. read_all_rows (Some (write_all_rows rows)) = Inr rs \<longrightarrow>
      rs = map (\<lambda>r. \<lparr>cells = map (\<lambda>c. (c, Some (py_or (dict_get r c) ''''))) csv_columns,
                     rest = None\<rparr>)
             (filter (\<lambda>r. row_id r \<noteq> '''') rows)) \<and>
   (\<forall>r k. dict_get \<lparr>cells = map (\<lambda>c. (c, Some (py_or (dict_get r c) ''''))) csv_columns,
                    rest = None\<rparr> k =
      (if k \<in> set csv_columns then Some (py_or (dict_get r k) '''') else None))"
proof -
  have same: "write_all_rows rows = write_all_rows rows'"
    if "list_all2 (\<lambda>r r'. \<forall>c \<in> set csv_columns. dict_get r c = dict_get r' c) rows rows'"
    using that
  proof (induction rule: list_all2_induct)
    case Nil
    show ?case by simp
  next
    case (Cons r rs r' rs')
    from Cons.hyps(1) have "map (\<lambda>c. py_or (dict_get r c) '''') csv_columns =
        map (\<lambda>c. py_or (dict_get r' c) '''') csv_columns"
      by simp
    with Cons.IH show ?case
      by (simp add: write_all_rows_eq)
  qed
  have reread: "\<forall>rs. read_all_rows (Some (write_all_rows rows)) = Inr rs \<longrightarrow>
      rs = map (\<lambda>r. \<lparr>cells = map (\<lambda>c. (c, Some (py_or (dict_get r c) ''''))) csv_columns,
                     rest = None\<rparr>)
             (filter (\<lambda>r. row_id r \<noteq> '''') rows)"
    by (auto simp: read_all_rows_write_all_rows split: if_splits)
  from write_all_rows_eq [of rows] same reread dict_get_canonical show ?thesis
    by blast
qed

text \<open>
  A store with a tenth column \<open>note\<close>: the migration leaves the file alone and the row read
  from it holds the note. One rewrite of the store writes the nine columns of the row, and
  the row read after it holds no note.
\<close>

theorem write_all_rows_projects_witness:
  "ensure_csv_header_writes (Some [csv_columns @ [''note''], example_row @ [''fragile'']]) = None \<and>
   read_all_rows (Some [csv_columns @ [''note''], example_row @ [''fragile'']]) =
     Inr [dict_of_row (csv_columns @ [''note'']) (example_row @ [''fragile''])] \<and>
   dict_get (dict_of_row (csv_columns @ [''note'']) (example_row @ [''fragile''])) ''note'' =
     Some ''fragile'' \<and>
   write_all_rows [dict_of_row (csv_columns @ [''note'']) (example_row @ [''fragile''])] =
     [csv_columns, example_row] \<and>
   read_all_rows (Some [csv_columns, example_row]) = Inr [dict_of_row csv_columns example_row] \<and>
   dict_get (dict_of_row csv_columns example_row) ''note'' = None"
proof -
  have earlier: "ensure_csv_header_writes (Some [csv_columns @ [''note''], example_row @ [''fragile'']]) = None \<and>
     read_all_rows (Some [csv_columns @ [''note''], example_row @ [''fragile'']]) =
       Inr [dict_of_row (csv_columns @ [''note'']) (example_row @ [''fragile''])] \<and>
     dict_get (dict_of_row (csv_columns @ [''note'']) (example_row @ [''fragile''])) ''note'' =
       Some ''fragile''"
    by code_simp
  have cellvals: "csv_columns #
      map (\<lambda>r. map (\<lambda>c. py_or (dict_get r c) '''') csv_columns)
        [dict_of_row (csv_columns @ [''note'']) (example_row @ [''fragile''])] =
      [csv_columns, example_row]"
    by code_simp
  from write_all_rows_projects
    [of "[dict_of_row (csv_columns @ [''note'']) (example_row @ [''fragile''])]"] cellvals
  have written: "write_all_rows [dict_of_row (csv_columns @ [''note'']) (example_row @ [''fragile''])] =
     [csv_columns, example_row]"
    by simp
  have later: "read_all_rows (Some [csv_columns, example_row]) = Inr [dict_of_row csv_columns example_row] \<and>
     dict_get (dict_of_row csv_columns example_row) ''note'' = None"
    by code_simp
  from earlier written later show ?thesis by simp
qed

end
